theory Spec2Isabelle
  imports Main
begin

section \<open>AFC\_functions.py: the configuration patcher and the calibration commands\<close>

text \<open>
  A shallow embedding of \<open>extras/AFC_functions.py\<close>: \<open>afcFunction.ConfigRewrite\<close>,
  \<open>afcFunction.cmd_CALIBRATE_AFC\<close> and \<open>afcFunction.cmd_SET_BOWDEN_LENGTH\<close>.
  Python strings are \<open>string\<close> (character lists, code points below 256), a raised
  exception is a value of \<open>py_error\<close>, and the objects the methods mutate are fields of
  an explicit state that every command takes and returns.
\<close>

subsection \<open>Python string operations\<close>

definition newline :: char where
  "newline = CHR 0x0A"

text \<open>\<open>str.isspace\<close> on one character, which is also what \<open>\s\<close> matches and what
  \<open>str.strip()\<close> removes: tab to carriage return, the separators 0x1C to 0x1F, space,
  0x85 and 0xA0.\<close>

definition py_isspace :: "char \<Rightarrow> bool" where
  "py_isspace c =
     (let n = (of_char c :: nat)
      in (9 \<le> n \<and> n \<le> 13) \<or> (28 \<le> n \<and> n \<le> 32) \<or> n = 133 \<or> n = 160)"

definition strip :: "string \<Rightarrow> string" where
  "strip s = rev (dropWhile py_isspace (rev (dropWhile py_isspace s)))"

definition startswith :: "string \<Rightarrow> string \<Rightarrow> bool" where
  "startswith s p = (take (length p) s = p)"

definition endswith :: "string \<Rightarrow> string \<Rightarrow> bool" where
  "endswith s p = (length p \<le> length s \<and> drop (length s - length p) s = p)"

text \<open>\<open>str.index(c)\<close>: the position of the first \<open>c\<close>; \<open>None\<close> is the ValueError.\<close>

fun index_of :: "char \<Rightarrow> string \<Rightarrow> nat option" where
  "index_of c [] = None"
| "index_of c (x # xs) =
     (if x = c then Some 0
      else (case index_of c xs of None \<Rightarrow> None | Some i \<Rightarrow> Some (Suc i)))"

text \<open>\<open>str.ljust(width, " ")\<close>: the width is an integer, and a width that is not larger
  than the length (a negative one included) leaves the string as it is.\<close>

definition ljust :: "string \<Rightarrow> int \<Rightarrow> string" where
  "ljust s width = s @ replicate (nat (width - int (length s))) CHR '' ''"

text \<open>Iterating a text file: the lines, each with its terminating newline, the last one
  without when the file does not end in one.\<close>

fun file_lines :: "string \<Rightarrow> string list" where
  "file_lines [] = []"
| "file_lines (c # cs) =
     (if c = newline then [c] # file_lines cs
      else (case file_lines cs of [] \<Rightarrow> [[c]] | l # ls \<Rightarrow> (c # l) # ls))"

subsection \<open>ConfigRewrite\<close>

text \<open>
  \<open>re.match("^\[\s*{}\s*\]".format(rawsection), line)\<close> for a section name whose
  characters are literal in a regular expression (letters, digits, underscore, space):
  an opening bracket, any whitespace, the name, any whitespace, a closing bracket.
  \<open>ws_then k\<close> is \<open>\s*\<close> followed by the rest of the pattern \<open>k\<close>, with the
  backtracking of the regular expression: some number of leading whitespace characters is
  skipped and \<open>k\<close> matches what follows.
\<close>

fun ws_then :: "(string \<Rightarrow> bool) \<Rightarrow> string \<Rightarrow> bool" where
  "ws_then k [] = k []"
| "ws_then k (c # cs) = (k (c # cs) \<or> (py_isspace c \<and> ws_then k cs))"

definition section_match :: "string \<Rightarrow> string \<Rightarrow> bool" where
  "section_match rawsection line =
     (case line of
        [] \<Rightarrow> False
      | c # rest \<Rightarrow>
          c = CHR ''['' \<and>
          ws_then (\<lambda>r. startswith r rawsection \<and>
                        ws_then (\<lambda>r'. startswith r' '']'') (drop (length rawsection) r)) rest)"

text \<open>Lines 76 to 87: the replacement of a key line. \<open>line[comment_index:-1]\<close> is the
  text from the first \<open>#\<close> without the last character of the line.\<close>

definition rewrite_line :: "string \<Rightarrow> string \<Rightarrow> string \<Rightarrow> string" where
  "rewrite_line rawkey rawvalue line =
     (let (comment_index, comments) =
            (case index_of CHR ''#'' line of
               None \<Rightarrow> (0, [])
             | Some i \<Rightarrow> (i, butlast (drop i line)));
          line1 = rawkey @ '': '' @ rawvalue;
          line2 = ljust line1 (int comment_index - 1)
      in line2 @ '' '' @ comments @ [newline])"

text \<open>The state of the scan: \<open>sectionfound\<close>, \<open>taskdone\<close> and \<open>dataout\<close>.\<close>

record scan =
  sectionfound :: bool
  taskdone :: bool
  dataout :: string

text \<open>The body of \<open>for line in f\<close>, lines 70 to 90.\<close>

definition scan_line :: "string \<Rightarrow> string \<Rightarrow> string \<Rightarrow> scan \<Rightarrow> string \<Rightarrow> scan" where
  "scan_line rawsection rawkey rawvalue st line =
     (let sf1 = (if sectionfound st \<and> startswith line ''['' then False else sectionfound st);
          sf2 = (if section_match rawsection line then True else sf1)
      in if sf2 \<and> startswith line rawkey
         then \<lparr>sectionfound = False, taskdone = True,
               dataout = dataout st @ rewrite_line rawkey rawvalue line\<rparr>
         else \<lparr>sectionfound = sf2, taskdone = taskdone st, dataout = dataout st @ line\<rparr>)"

text \<open>One file, lines 67 to 90: \<open>dataout\<close> starts empty, \<open>sectionfound\<close> and
  \<open>taskdone\<close> come in as the previous file left them.\<close>

definition scan_file :: "string \<Rightarrow> string \<Rightarrow> string \<Rightarrow> bool \<Rightarrow> bool \<Rightarrow> string \<Rightarrow> scan" where
  "scan_file rawsection rawkey rawvalue sf td content =
     foldl (scan_line rawsection rawkey rawvalue)
       \<lparr>sectionfound = sf, taskdone = td, dataout = []\<rparr> (file_lines content)"

text \<open>An entry of the configuration directory: a regular file with its text, or something
  \<open>os.path.isfile\<close> rejects. The directory is the list \<open>os.listdir\<close> returns, in its
  order, each name with its entry.\<close>

datatype entry = File string | NotAFile

type_synonym directory = "(string \<times> entry) list"

datatype log_entry = Info string | Error string | Raw string

definition saved_msg :: "string \<Rightarrow> string \<Rightarrow> string \<Rightarrow> string" where
  "saved_msg rawkey rawvalue rawsection =
     [newline] @ ''<span class=info--text>Saved '' @ rawkey @ '':'' @ rawvalue @ '' in '' @
     rawsection @ '' section to configuration file</span>''"

definition not_found_msg :: "string \<Rightarrow> string \<Rightarrow> string" where
  "not_found_msg rawkey rawsection =
     [newline] @ ''<span class=info--text>Key '' @ rawkey @ '' not found in section '' @
     rawsection @ '', cannot update</span>''"

text \<open>The loop over the directory, lines 64 to 98, with the flags it carries from one file
  to the next. The result is the directory after the call and whether a file was written
  (the \<open>return\<close> of line 98).\<close>

fun rewrite_files ::
  "string \<Rightarrow> string \<Rightarrow> string \<Rightarrow> bool \<Rightarrow> bool \<Rightarrow> directory \<Rightarrow> directory \<times> bool" where
  "rewrite_files rawsection rawkey rawvalue sf td [] = ([], False)"
| "rewrite_files rawsection rawkey rawvalue sf td ((filename, e) # rest) =
     (case e of
        NotAFile \<Rightarrow>
          (let (rest', saved) = rewrite_files rawsection rawkey rawvalue sf td rest
           in ((filename, e) # rest', saved))
      | File content \<Rightarrow>
          if endswith filename ''.cfg'' then
            (let st = scan_file rawsection rawkey rawvalue sf td content
             in if taskdone st then ((filename, File (dataout st)) # rest, True)
                else (let (rest', saved) =
                            rewrite_files rawsection rawkey rawvalue (sectionfound st) (taskdone st) rest
                      in ((filename, e) # rest', saved)))
          else
            (let (rest', saved) = rewrite_files rawsection rawkey rawvalue sf td rest
             in ((filename, e) # rest', saved)))"

text \<open>\<open>ConfigRewrite(rawsection, rawkey, rawvalue, msg)\<close>: the directory after the call
  and the line it logs.\<close>

definition ConfigRewrite ::
  "directory \<Rightarrow> string \<Rightarrow> string \<Rightarrow> string \<Rightarrow> string \<Rightarrow> directory \<times> log_entry" where
  "ConfigRewrite cfgloc rawsection rawkey rawvalue msg =
     (let (cfgloc', saved) = rewrite_files rawsection rawkey rawvalue False False cfgloc
      in if saved then (cfgloc', Info (msg @ saved_msg rawkey rawvalue rawsection))
         else (cfgloc', Info (msg @ not_found_msg rawkey rawsection)))"

subsection \<open>The registry and the host\<close>

text \<open>Exceptions of the Python run, by class, with the offending name or text.\<close>

datatype py_error =
  AttributeError string | KeyError string | IndexError | ValueError string | PassError string

text \<open>
  Lengths, distances and tolerances are Python numbers. Their type is the parameter
  \<open>'n\<close>: the commands only add two of them and pass them on, so nothing is assumed of
  the arithmetic but that \<open>+\<close> is the host's addition. The defaults 25 and 5 of
  \<open>get_float\<close> are the numbers of that name; that Python prints the integer default
  without a fraction shows in \<open>cal_msg\<close> only.
\<close>

record 'n hub =
  hub_name :: string
  config_bowden_length :: 'n
  afc_bowden_length :: 'n

record extruder =
  tool_start :: "string option"
  tool_end :: "string option"

text \<open>A lane holds references: its unit and its hub by name, its extruder as an address
  of the store \<open>extruders\<close> below (\<open>None\<close> when \<open>extruder_obj\<close> is \<open>None\<close>), and its
  buffer.\<close>

record lane =
  lane_name :: string
  unit_obj :: string
  hub_obj :: string
  extruder_obj :: "string option"
  buffer_obj :: "string option"

record afc_unit =
  unit_name :: string
  unit_lanes :: "(string \<times> lane) list"

text \<open>A call into a unit's capability, as the trace \<open>hw_calls\<close> records it: the unit,
  the lane's name and the numbers passed.\<close>

datatype 'n hw_call =
  CalibrateLane string string 'n
| CalibrateBowden string string 'n 'n

text \<open>
  The \<open>AFC\<close> object as the commands see it. The dictionaries \<open>lanes\<close> and \<open>units\<close>
  are association lists in insertion order (the order \<open>.values()\<close> iterates in), \<open>hubs\<close>
  is a map, \<open>extruders\<close> is the store of extruder objects that lanes share by reference.
  \<open>logged\<close> collects what the logger and \<open>AFC_error\<close> are given, \<open>hw_calls\<close> the calls
  into the units.
\<close>

record 'n afc =
  current :: "string option"
  lanes :: "(string \<times> lane) list"
  units :: "(string \<times> afc_unit) list"
  hubs :: "string \<rightharpoonup> 'n hub"
  extruders :: "string \<Rightarrow> extruder"
  logged :: "log_entry list"
  hw_calls :: "'n hw_call list"

text \<open>
  What the file calls and does not define. \<open>py_float\<close> is the builtin \<open>float\<close> on a
  string (\<open>None\<close> is its ValueError) and \<open>py_str\<close> is \<open>"{}".format\<close> of a number.
  The two methods of a unit are given the registry as it is when they are called, and they
  leave a registry: a pass may log, write the working length of a hub, change a sensor or
  the loaded lane. \<open>calibrate_lane s u l tol\<close> returns the pair \<open>(checked, msg)\<close> of unit
  \<open>u\<close> for lane \<open>l\<close>, or raises; \<open>calibrate_bowden\<close> returns (a value the command
  never reads) or raises.
\<close>

record 'n host =
  py_float :: "string \<Rightarrow> 'n option"
  py_str :: "'n \<Rightarrow> string"
  calibrate_lane ::
    "'n afc \<Rightarrow> string \<Rightarrow> lane \<Rightarrow> 'n \<Rightarrow> (py_error + bool \<times> string) \<times> 'n afc"
  calibrate_bowden ::
    "'n afc \<Rightarrow> string \<Rightarrow> lane \<Rightarrow> 'n \<Rightarrow> 'n \<Rightarrow> (py_error + bool) \<times> 'n afc"

text \<open>The parameters of a command as \<open>gcmd.get\<close> and \<open>gcmd.get_float\<close> deliver them;
  \<open>None\<close> is a parameter that was not given.\<close>

record 'n gcmd =
  DISTANCE :: "'n option"
  TOLERANCE :: "'n option"
  BOWDEN :: "string option"
  LANE :: "string option"
  UNIT :: "string option"
  HUB :: "string option"
  LENGTH :: "string option"

definition log_info :: "string \<Rightarrow> 'n afc \<Rightarrow> 'n afc" where
  "log_info m s = s\<lparr>logged := logged s @ [Info m]\<rparr>"

definition log_raw :: "string \<Rightarrow> 'n afc \<Rightarrow> 'n afc" where
  "log_raw m s = s\<lparr>logged := logged s @ [Raw m]\<rparr>"

text \<open>\<open>self.AFC.ERROR.AFC_error(msg, pause=False)\<close>.\<close>

definition AFC_error :: "string \<Rightarrow> 'n afc \<Rightarrow> 'n afc" where
  "AFC_error m s = s\<lparr>logged := logged s @ [Error m]\<rparr>"

subsection \<open>cmd\_SET\_BOWDEN\_LENGTH\<close>

text \<open>
  \<open>self.current\<close>, read at lines 498 and 500. The instance is given \<open>printer\<close>,
  \<open>errorLog\<close> and \<open>pause\<close> by \<open>__init__\<close> and \<open>AFC\<close> and \<open>logger\<close> by
  \<open>handle_connect\<close>; the class defines methods and help strings. It has no attribute
  \<open>current\<close> (line 497 reads \<open>self.AFC.current\<close>), so the read raises.
\<close>

definition self_current :: "py_error + string option" where
  "self_current = Inl (AttributeError ''current'')"

text \<open>Lines 507 to 514: the new length.\<close>

definition new_bowden_length ::
  "'n::plus host \<Rightarrow> 'n hub \<Rightarrow> 'n \<Rightarrow> string option \<Rightarrow> py_error + 'n" where
  "new_bowden_length h CUR_HUB config_bowden length_param =
     (case length_param of
        None \<Rightarrow> Inr (config_bowden_length CUR_HUB)
      | Some lp \<Rightarrow>
          if strip lp = [] then Inr (config_bowden_length CUR_HUB)
          else (case lp of
                  [] \<Rightarrow> Inl IndexError
                | c # _ \<Rightarrow>
                    if c = CHR ''+'' \<or> c = CHR ''-'' then
                      (case py_float h lp of
                         None \<Rightarrow> Inl (ValueError lp)
                       | Some bowden_value \<Rightarrow> Inr (config_bowden + bowden_value))
                    else
                      (case py_float h lp of
                         None \<Rightarrow> Inl (ValueError lp)
                       | Some v \<Rightarrow> Inr v)))"

definition bowden_length_msg :: "'n host \<Rightarrow> string \<Rightarrow> 'n hub \<Rightarrow> 'n \<Rightarrow> 'n \<Rightarrow> string" where
  "bowden_length_msg h hub CUR_HUB config_bowden bowden_length =
     ''// Hub : '' @ hub @ [newline] @
     ''//   Config Bowden Length:   '' @ py_str h (config_bowden_length CUR_HUB) @ [newline] @
     ''//   Previous Bowden Length: '' @ py_str h config_bowden @ [newline] @
     ''//   New Bowden Length:      '' @ py_str h bowden_length @ [newline] @
     [newline] @ ''// TO SAVE BOWDEN LENGTH afc_bowden_length MUST BE UPDATED IN AFC_Hardware.cfg for each hub if there are multiple''"

text \<open>Lines 504 to 522, for the hub name that lines 493 to 502 settled on.\<close>

definition set_bowden_length ::
  "'n::plus host \<Rightarrow> string \<Rightarrow> string option \<Rightarrow> 'n afc \<Rightarrow> py_error option \<times> 'n afc" where
  "set_bowden_length h hub length_param s =
     (case hubs s hub of
        None \<Rightarrow> (Some (KeyError hub), s)
      | Some CUR_HUB \<Rightarrow>
          (let config_bowden = afc_bowden_length CUR_HUB
           in case new_bowden_length h CUR_HUB config_bowden length_param of
                Inl e \<Rightarrow> (Some e, s)
              | Inr bowden_length \<Rightarrow>
                  (None,
                   log_raw (bowden_length_msg h hub CUR_HUB config_bowden bowden_length)
                     (s\<lparr>hubs := (hubs s)(hub \<mapsto> CUR_HUB\<lparr>afc_bowden_length := bowden_length\<rparr>)\<rparr>))))"

text \<open>The command: the exception it ends with, if any, and the registry it leaves.\<close>

definition cmd_SET_BOWDEN_LENGTH ::
  "'n::plus host \<Rightarrow> 'n gcmd \<Rightarrow> 'n afc \<Rightarrow> py_error option \<times> 'n afc" where
  "cmd_SET_BOWDEN_LENGTH h g s =
     (let length_param = LENGTH g
      in case HUB g of
           Some hub \<Rightarrow> set_bowden_length h hub length_param s
         | None \<Rightarrow>
             if current s \<noteq> None then
               (case self_current of
                  Inl e \<Rightarrow> (Some e, s)
                | Inr None \<Rightarrow> (Some (KeyError ''None''), s)
                | Inr (Some c) \<Rightarrow>
                    (case map_of (lanes s) c of
                       None \<Rightarrow> (Some (KeyError c), s)
                     | Some CUR_LANE \<Rightarrow> set_bowden_length h (hub_obj CUR_LANE) length_param s))
             else
               (case self_current of
                  Inl e \<Rightarrow> (Some e, s)
                | Inr None \<Rightarrow>
                    (None, log_info ''A lane is not loaded please specify hub to adjust bowden length'' s)
                | Inr (Some c) \<Rightarrow> (Some (KeyError ''None''), s)))"

subsection \<open>cmd\_CALIBRATE\_AFC\<close>

text \<open>
  The registry after a call into a unit that was made in the registry \<open>s\<close> and left
  \<open>s'\<close>: what the unit left, with the call added to the trace. The tables \<open>lanes\<close> and
  \<open>units\<close> stay those of \<open>s\<close>: lanes and units are made when the configuration is
  loaded and live as long as the process, and what a lane holds here is its name and its
  references.
\<close>

definition after_call :: "'n afc \<Rightarrow> 'n hw_call \<Rightarrow> 'n afc \<Rightarrow> 'n afc" where
  "after_call s c s' = s'\<lparr>lanes := lanes s, units := units s, hw_calls := hw_calls s @ [c]\<rparr>"

text \<open>The call \<open>calibrate_lane(CUR_LANE, tol)\<close> on unit \<open>u\<close>: what it returns or raises,
  and the registry after it.\<close>

definition lane_pass ::
  "'n host \<Rightarrow> string \<Rightarrow> 'n \<Rightarrow> lane \<Rightarrow> 'n afc \<Rightarrow> (py_error + bool \<times> string) \<times> 'n afc" where
  "lane_pass h u tol CUR_LANE s =
     (case calibrate_lane h s u CUR_LANE tol of
        (r, s') \<Rightarrow> (r, after_call s (CalibrateLane u (lane_name CUR_LANE) tol) s'))"

text \<open>How a part of the command ends: with an exception, with \<open>return\<close>, or by going on to
  the next statement with \<open>cal_msg\<close> as it then is.\<close>

datatype 'n flow = Raise py_error "'n afc" | Return "'n afc" | Continue string "'n afc"

text \<open>
  One distance pass with the two statements after it, as lines 418 to 420 (and 425 to 427,
  431 to 433, 440 to 442) have them: \<open>return\<close> when the pass was not checked, else the
  message is appended to \<open>cal_msg\<close>.
\<close>

definition calibrate_pass ::
  "'n host \<Rightarrow> string \<Rightarrow> 'n \<Rightarrow> lane \<Rightarrow> string \<Rightarrow> 'n afc \<Rightarrow> 'n flow" where
  "calibrate_pass h u tol CUR_LANE cal_msg s =
     (case lane_pass h u tol CUR_LANE s of
        (Inl err, s') \<Rightarrow> Raise err s'
      | (Inr (checked, msg), s') \<Rightarrow>
          if \<not> checked then Return s' else Continue (cal_msg @ msg) s')"

text \<open>
  The loops of lines 423 to 427 and 438 to 442 over the lanes in their order; \<open>unit_of\<close>
  gives the unit whose \<open>calibrate_lane\<close> is called for a lane.
\<close>

fun calibrate_lanes ::
  "'n host \<Rightarrow> (lane \<Rightarrow> string) \<Rightarrow> 'n \<Rightarrow> lane list \<Rightarrow> string \<Rightarrow> 'n afc \<Rightarrow> 'n flow" where
  "calibrate_lanes h unit_of tol [] cal_msg s = Continue cal_msg s"
| "calibrate_lanes h unit_of tol (CUR_LANE # rest) cal_msg s =
     (case calibrate_pass h (unit_of CUR_LANE) tol CUR_LANE cal_msg s of
        Raise err s' \<Rightarrow> Raise err s'
      | Return s' \<Rightarrow> Return s'
      | Continue cal_msg' s' \<Rightarrow> calibrate_lanes h unit_of tol rest cal_msg' s')"

text \<open>Line 444, reached when no pass left through \<open>return\<close> or an exception.\<close>

definition after_passes :: "'n flow \<Rightarrow> 'n flow" where
  "after_passes r =
     (case r of
        Raise err s \<Rightarrow> Raise err s
      | Return s \<Rightarrow> Return s
      | Continue cal_msg s \<Rightarrow> Continue cal_msg (log_info ''Lane calibration Done!'' s))"

definition calibration_header :: "'n host \<Rightarrow> 'n \<Rightarrow> string" where
  "calibration_header h tol = ''AFC Calibration distances +/-'' @ py_str h tol @ ''mm''"

text \<open>Lines 417 to 420 and 430 to 433: the one lane \<open>LANE\<close> names.\<close>

definition calibrate_single ::
  "'n host \<Rightarrow> 'n \<Rightarrow> string \<Rightarrow> string \<Rightarrow> 'n afc \<Rightarrow> 'n flow" where
  "calibrate_single h tol ln cal_msg s =
     (case map_of (lanes s) ln of
        None \<Rightarrow> Raise (KeyError ln) s
      | Some CUR_LANE \<Rightarrow>
          after_passes (calibrate_pass h (unit_obj CUR_LANE) tol CUR_LANE cal_msg s))"

text \<open>Lines 412 to 447.\<close>

definition distance_calibration ::
  "'n host \<Rightarrow> 'n \<Rightarrow> string option \<Rightarrow> string option \<Rightarrow> string \<Rightarrow> 'n afc \<Rightarrow> 'n flow" where
  "distance_calibration h tol lanes_param unit cal_msg s =
     (case lanes_param of
        None \<Rightarrow> Continue cal_msg (log_info ''No lanes selected to calibrate dist_hub'' s)
      | Some ln \<Rightarrow>
          (let s1 = log_info ''Starting AFC distance Calibrations'' s;
               cal_msg1 = cal_msg @ calibration_header h tol
           in case unit of
                None \<Rightarrow>
                  if ln \<noteq> ''all'' then calibrate_single h tol ln cal_msg1 s1
                  else after_passes
                         (calibrate_lanes h unit_obj tol (map snd (lanes s1)) cal_msg1 s1)
              | Some u \<Rightarrow>
                  if ln \<noteq> ''all'' then calibrate_single h tol ln cal_msg1 s1
                  else (case map_of (units s1) u of
                          None \<Rightarrow> Raise (KeyError u) s1
                        | Some CUR_UNIT \<Rightarrow>
                            after_passes
                              (calibrate_lanes h (\<lambda>l. u) tol (map snd (unit_lanes CUR_UNIT))
                                 cal_msg1 (log_info (unit_name CUR_UNIT) s1)))))"

definition set_tool_start :: "string \<Rightarrow> string option \<Rightarrow> 'n afc \<Rightarrow> 'n afc" where
  "set_tool_start e v s = s\<lparr>extruders := (extruders s)(e := (extruders s e)\<lparr>tool_start := v\<rparr>)\<rparr>"

text \<open>
  Lines 450 to 471 for \<open>BOWDEN=afc_bl\<close>. \<open>cal_msg\<close> is extended at lines 465 and 466 and
  not read after that, so it is not carried here. The pass is called in the registry with
  the substituted sensor; when it raises, lines 468 to 471 are not run.
\<close>

definition bowden_calibration ::
  "'n host \<Rightarrow> 'n \<Rightarrow> 'n \<Rightarrow> string \<Rightarrow> 'n afc \<Rightarrow> py_error option \<times> 'n afc" where
  "bowden_calibration h dis tol afc_bl s =
     (case map_of (lanes s) afc_bl of
        None \<Rightarrow> (Some (KeyError afc_bl), s)
      | Some CUR_LANE \<Rightarrow>
          (case extruder_obj CUR_LANE of
             None \<Rightarrow> (Some (AttributeError ''tool_start''), s)
           | Some e \<Rightarrow>
               if tool_start (extruders s e) = None \<and> tool_end (extruders s e) \<noteq> None \<and>
                  buffer_obj CUR_LANE \<noteq> None
               then
                 (let s1 = log_info ''Cannot run calibration using post extruder sensor, using buffer to calibrate bowden length'' s;
                      s2 = set_tool_start e (Some ''buffer'') s1;
                      set_tool_start_back_to_none = True;
                      s3 = log_info ''Starting AFC distance Calibrations'' s2;
                      c = CalibrateBowden (unit_obj CUR_LANE) (lane_name CUR_LANE) dis tol
                  in case calibrate_bowden h s3 (unit_obj CUR_LANE) CUR_LANE dis tol of
                       (Inl err, s') \<Rightarrow> (Some err, after_call s3 c s')
                     | (Inr ok, s') \<Rightarrow>
                         (let s5 = log_info ''Bowden length calibration Done!'' (after_call s3 c s')
                          in (None, if set_tool_start_back_to_none then set_tool_start e None s5
                                    else s5)))
               else
                 (None,
                  AFC_error ''Cannot calibrate with only post extruder sensor and no turtleneck buffer defined in config'' s)))"

text \<open>
  For stating what a batch did: the passes of a list of lanes, run one after the other,
  each in the registry the one before it left. The result lists what each pass returned or
  raised and gives the registry after the last.
\<close>

fun run_passes ::
  "'n host \<Rightarrow> (lane \<Rightarrow> string) \<Rightarrow> 'n \<Rightarrow> lane list \<Rightarrow> 'n afc \<Rightarrow>
     (py_error + bool \<times> string) list \<times> 'n afc" where
  "run_passes h unit_of tol [] s = ([], s)"
| "run_passes h unit_of tol (l # ls) s =
     (case lane_pass h (unit_of l) tol l s of
        (r, s') \<Rightarrow>
          (case run_passes h unit_of tol ls s' of (rs, s'') \<Rightarrow> (r # rs, s'')))"

text \<open>\<open>x is not None and x not in d\<close>, with \<open>x != 'all'\<close> for the lane selector.\<close>

definition unknown_key :: "string option \<Rightarrow> (string \<times> 'a) list \<Rightarrow> bool" where
  "unknown_key x d = (case x of None \<Rightarrow> False | Some k \<Rightarrow> map_of d k = None)"

definition quoted :: "string option \<Rightarrow> string" where
  "quoted x = [CHR 0x27] @ (case x of None \<Rightarrow> ''None'' | Some k \<Rightarrow> k) @ [CHR 0x27]"

text \<open>The command, lines 387 to 471: the exception it ends with, if any, and the registry
  it leaves. It returns no value, and \<open>cal_msg\<close> is a local that no statement reads.\<close>

definition cmd_CALIBRATE_AFC ::
  "'n::numeral host \<Rightarrow> 'n gcmd \<Rightarrow> 'n afc \<Rightarrow> py_error option \<times> 'n afc" where
  "cmd_CALIBRATE_AFC h g s =
     (let dis = (case DISTANCE g of None \<Rightarrow> 25 | Some d \<Rightarrow> d);
          tol = (case TOLERANCE g of None \<Rightarrow> 5 | Some t \<Rightarrow> t);
          afc_bl = BOWDEN g;
          lanes_param = LANE g;
          unit = UNIT g
      in if current s \<noteq> None \<and> afc_bl \<noteq> None then
           (None, log_info ''Tool must be unloaded to calibrate Bowden length'' s)
         else if lanes_param \<noteq> Some ''all'' \<and> unknown_key lanes_param (lanes s) then
           (None, AFC_error (quoted lanes_param @ '' is not a valid lane'') s)
         else if unknown_key unit (units s) then
           (None, AFC_error (quoted unit @ '' is not a valid unit'') s)
         else if unknown_key afc_bl (lanes s) then
           (None, AFC_error (quoted afc_bl @ '' is not a valid lane to calibrate bowden length'') s)
         else
           (case distance_calibration h tol lanes_param unit [] s of
              Raise e s1 \<Rightarrow> (Some e, s1)
            | Return s1 \<Rightarrow> (None, s1)
            | Continue cal_msg s1 \<Rightarrow>
                (case afc_bl of
                   None \<Rightarrow> (None, s1)
                 | Some b \<Rightarrow> bowden_calibration h dis tol b s1)))"

subsection \<open>A concrete host\<close>

text \<open>
  For the runs at concrete inputs: numbers are integers, standing for the floats with
  the same integral value (on which the host's addition is exact). \<open>float_int\<close> is
  \<open>float\<close> on an optionally signed run of decimal digits with surrounding whitespace,
  and \<open>str_int\<close> prints such a float the way \<open>str.format\<close> does below \<open>10 ^ 16\<close>. The
  runs apply them to such literals and values only.
\<close>

definition is_digit :: "char \<Rightarrow> bool" where
  "is_digit c = (let n = (of_char c :: nat) in 48 \<le> n \<and> n \<le> 57)"

fun digits_value :: "string \<Rightarrow> nat \<Rightarrow> nat option" where
  "digits_value [] acc = Some acc"
| "digits_value (c # cs) acc =
     (if is_digit c then digits_value cs (10 * acc + (of_char c - 48)) else None)"

definition unsigned_int :: "string \<Rightarrow> int option" where
  "unsigned_int ds = (case ds of [] \<Rightarrow> None | _ # _ \<Rightarrow> map_option int (digits_value ds 0))"

definition float_int :: "string \<Rightarrow> int option" where
  "float_int s =
     (case strip s of
        [] \<Rightarrow> None
      | c # cs \<Rightarrow>
          if c = CHR ''-'' then map_option uminus (unsigned_int cs)
          else if c = CHR ''+'' then unsigned_int cs
          else unsigned_int (c # cs))"

fun show_digits :: "nat \<Rightarrow> nat \<Rightarrow> string" where
  "show_digits 0 n = []"
| "show_digits (Suc fuel) n =
     (if n < 10 then [char_of (48 + n)]
      else show_digits fuel (n div 10) @ [char_of (48 + n mod 10)])"

definition str_int :: "int \<Rightarrow> string" where
  "str_int i = (if i < 0 then ''-'' else []) @ show_digits 17 (nat \<bar>i\<bar>) @ ''.0''"

text \<open>The units of the concrete runs leave the registry as they find it. \<open>pass_table\<close>
  lists, by lane name, what \<open>calibrate_lane\<close> returns; a lane it does not list fails its
  pass. \<open>bowden_result\<close> is how \<open>calibrate_bowden\<close> ends.\<close>

definition table_host :: "(string \<times> bool \<times> string) list \<Rightarrow> py_error + bool \<Rightarrow> int host" where
  "table_host pass_table bowden_result =
     \<lparr>py_float = float_int, py_str = str_int,
      calibrate_lane = (\<lambda>s u l tol. (Inr (case map_of pass_table (lane_name l) of
                                               None \<Rightarrow> (False, []) | Some r \<Rightarrow> r), s)),
      calibrate_bowden = (\<lambda>s u l dis tol. (bowden_result, s))\<rparr>"

definition no_gcmd :: "int gcmd" where
  "no_gcmd = \<lparr>DISTANCE = None, TOLERANCE = None, BOWDEN = None, LANE = None, UNIT = None,
              HUB = None, LENGTH = None\<rparr>"

subsection \<open>A concrete machine\<close>

text \<open>One unit and hub \<open>Turtle_1\<close> with four lanes that share one extruder, nothing
  loaded; the hub's configured Bowden length is 200 and its working length 205. The
  extruder's sensors are the parameter.\<close>

definition example_lane :: "string \<Rightarrow> lane" where
  "example_lane n =
     \<lparr>lane_name = n, unit_obj = ''Turtle_1'', hub_obj = ''Turtle_1'',
      extruder_obj = Some ''extruder'', buffer_obj = Some ''TN''\<rparr>"

definition example_lanes :: "(string \<times> lane) list" where
  "example_lanes = map (\<lambda>n. (n, example_lane n)) [''lane1'', ''lane2'', ''lane3'', ''lane4'']"

definition example_hub :: "int hub" where
  "example_hub = \<lparr>hub_name = ''Turtle_1'', config_bowden_length = 200, afc_bowden_length = 205\<rparr>"

definition example_afc :: "extruder \<Rightarrow> int afc" where
  "example_afc ex =
     \<lparr>current = None, lanes = example_lanes,
      units = [(''Turtle_1'', \<lparr>unit_name = ''Turtle_1'', unit_lanes = example_lanes\<rparr>)],
      hubs = [''Turtle_1'' \<mapsto> example_hub],
      extruders = (\<lambda>a. ex), logged = [], hw_calls = []\<rparr>"

definition pre_sensor :: extruder where
  "pre_sensor = \<lparr>tool_start = Some ''^PB1'', tool_end = None\<rparr>"

definition post_sensor :: extruder where
  "post_sensor = \<lparr>tool_start = None, tool_end = Some ''^PB2''\<rparr>"

text \<open>Passes for the batch run: the first two lanes pass, the third fails.\<close>

definition two_then_fail :: "(string \<times> bool \<times> string) list" where
  "two_then_fail =
     [(''lane1'', True, ''lane1 ok''), (''lane2'', True, ''lane2 ok''),
      (''lane3'', False, ''lane3 failed''), (''lane4'', True, ''lane4 ok'')]"

text \<open>Configuration directories: a key line with a comment, a file that ends inside the
  target section followed by a file that starts with the key, the same two files before
  two files that each hold the section with the key, and a section without the key in one
  file with the key outside every section in a later one.\<close>

definition noted_line :: string where
  "noted_line = ''key: 1 # note'' @ [newline]"

definition open_section_dir :: directory where
  "open_section_dir =
     [(''a.cfg'', File (''[sec]'' @ [newline])),
      (''b.cfg'', File (''key: 1'' @ [newline]))]"

definition four_file_dir :: directory where
  "four_file_dir =
     [(''a.cfg'', File (''[sec]'' @ [newline])),
      (''b.cfg'', File (''key: 1'' @ [newline])),
      (''c.cfg'', File (''[sec]'' @ [newline] @ ''key: 1'' @ [newline])),
      (''d.cfg'', File (''[sec]'' @ [newline] @ ''key: 1'' @ [newline]))]"

definition split_dir :: directory where
  "split_dir =
     [(''hub.cfg'', File (''[sec]'' @ [newline] @ ''other: 3'' @ [newline])),
      (''notes.txt'', File (''key: 0'' @ [newline])),
      (''macros.cfg'', File (''# macros'' @ [newline] @ ''key: 1'' @ [newline]))]"

section \<open>Properties\<close>

subsection \<open>Auxiliary facts\<close>

lemma concat_file_lines: "concat (file_lines s) = s"
  by (induction s) (auto split: list.splits)

lemma strip_nonempty: "strip lp \<noteq> [] \<Longrightarrow> lp \<noteq> []"
  by (auto simp: strip_def)

lemma index_of_Some: "index_of c xs = Some i \<Longrightarrow> i < length xs \<and> xs ! i = c"
  by (induction xs arbitrary: i) (auto split: if_splits option.splits)

lemma pad_count: "nat (int c - 1 - int n) + 1 = max c (Suc n) - n"
proof (cases "c \<le> Suc n")
  case True
  then have "int c - 1 - int n \<le> 0" by simp
  then have "nat (int c - 1 - int n) = 0" by simp
  with True show ?thesis by (simp add: max_def)
next
  case False
  then have "n + 1 < c" by simp
  then have "int c - 1 - int n = int (c - 1 - n)" by (simp add: of_nat_diff)
  then have "nat (int c - 1 - int n) = c - 1 - n" by (metis nat_int)
  with False show ?thesis by (simp add: max_def)
qed

lemma pad_length: "n + (max c (Suc n) - n) = max c (Suc n)"
  by (simp add: max_def)

text \<open>The rewritten line when the key line has a \<open>#\<close>: the new text, spaces up to the
  column where the comment goes, the comment, a newline.\<close>

lemma rewrite_line_shape:
  assumes "index_of CHR ''#'' line = Some c"
  shows "rewrite_line rawkey rawvalue line =
           (rawkey @ '': '' @ rawvalue) @
           replicate (max c (Suc (length (rawkey @ '': '' @ rawvalue))) -
                      length (rawkey @ '': '' @ rawvalue)) CHR '' '' @
           butlast (drop c line) @ [newline]"
proof -
  let ?l = "rawkey @ '': '' @ rawvalue"
  have "nat (int c - 1 - int (length ?l)) + 1 = max c (Suc (length ?l)) - length ?l"
    by (rule pad_count)
  then have "replicate (nat (int c - 1 - int (length ?l))) CHR '' '' @ '' ''
             = replicate (max c (Suc (length ?l)) - length ?l) CHR '' ''"
    by (metis Suc_eq_plus1 replicate_Suc replicate_append_same)
  then show ?thesis
    using assms by (simp add: rewrite_line_def ljust_def)
qed

text \<open>A call of \<open>ConfigRewrite\<close> that writes no file leaves the directory as it was and
  logs that the key was not found.\<close>

lemma rewrite_files_unsaved:
  "rewrite_files rawsection rawkey rawvalue sf td cfgloc = (cfgloc', False) \<Longrightarrow> cfgloc' = cfgloc"
proof (induction cfgloc arbitrary: sf td cfgloc')
  case Nil
  then show ?case by simp
next
  case (Cons fe rest)
  obtain filename e where fe: "fe = (filename, e)" by (cases fe)
  show ?case
    using Cons.prems Cons.IH unfolding fe
    by (auto simp: Let_def split: entry.splits if_splits prod.splits)
qed

lemma ConfigRewrite_not_found_unchanged:
  "snd (rewrite_files rawsection rawkey rawvalue False False cfgloc) = False \<Longrightarrow>
   ConfigRewrite cfgloc rawsection rawkey rawvalue msg =
     (cfgloc, Info (msg @ not_found_msg rawkey rawsection))"
  using rewrite_files_unsaved [of rawsection rawkey rawvalue False False cfgloc]
  by (cases "rewrite_files rawsection rawkey rawvalue False False cfgloc")
     (simp add: ConfigRewrite_def)

text \<open>The passes of the calibration command: each call is added to the trace, a run of
  checked passes takes the loop to the lane after them with their messages appended, and a
  pass that is not checked ends the loop.\<close>

lemma lane_pass_trace:
  "lane_pass h u tol l s = (r, s') \<Longrightarrow>
     hw_calls s' = hw_calls s @ [CalibrateLane u (lane_name l) tol]"
  by (auto simp: lane_pass_def after_call_def split: prod.splits)

lemma run_passes_trace:
  "run_passes h unit_of tol ls s = (rs, s') \<Longrightarrow>
     hw_calls s' = hw_calls s @ map (\<lambda>l. CalibrateLane (unit_of l) (lane_name l) tol) ls"
proof (induction ls arbitrary: s rs s')
  case Nil
  then show ?case by simp
next
  case (Cons l ls)
  obtain r s1 where p: "lane_pass h (unit_of l) tol l s = (r, s1)"
    by (cases "lane_pass h (unit_of l) tol l s")
  obtain rs1 s2 where q: "run_passes h unit_of tol ls s1 = (rs1, s2)"
    by (cases "run_passes h unit_of tol ls s1")
  from Cons.prems p q have "s' = s2" by simp
  with Cons.IH [OF q] lane_pass_trace [OF p] show ?case by simp
qed

lemma calibrate_lanes_checked_prefix:
  assumes "run_passes h unit_of tol pre s = (map (\<lambda>m. Inr (True, m)) ms, s1)"
  shows "calibrate_lanes h unit_of tol (pre @ rest) cal_msg s =
           calibrate_lanes h unit_of tol rest (cal_msg @ concat ms) s1"
  using assms
proof (induction pre arbitrary: s ms cal_msg)
  case Nil
  then show ?case by simp
next
  case (Cons l pre)
  obtain r s2 where p: "lane_pass h (unit_of l) tol l s = (r, s2)"
    by (cases "lane_pass h (unit_of l) tol l s")
  obtain rs s3 where q: "run_passes h unit_of tol pre s2 = (rs, s3)"
    by (cases "run_passes h unit_of tol pre s2")
  from Cons.prems p q have e: "r # rs = map (\<lambda>m. Inr (True, m)) ms" and s3: "s3 = s1"
    by simp_all
  then obtain m ms' where ms: "ms = m # ms'" and r: "r = Inr (True, m)"
    and rs: "rs = map (\<lambda>m. Inr (True, m)) ms'"
    by (cases ms) auto
  from q rs s3 have q': "run_passes h unit_of tol pre s2 = (map (\<lambda>m. Inr (True, m)) ms', s1)"
    by simp
  from Cons.IH [OF q', of "cal_msg @ m"] p r ms show ?case
    by (simp add: calibrate_pass_def)
qed

lemma calibrate_lanes_failed_pass:
  assumes "lane_pass h (unit_of bad) tol bad s = (r, s')"
      and "(\<exists>mb. r = Inr (False, mb)) \<or> (\<exists>err. r = Inl err)"
  shows "calibrate_lanes h unit_of tol (bad # rest) cal_msg s =
           (case r of Inl err \<Rightarrow> Raise err s' | Inr x \<Rightarrow> Return s')"
  using assms by (auto simp: calibrate_pass_def)

text \<open>Without \<open>HUB\<close> the command ends in the AttributeError on either branch of lines
  497 to 502, and the registry is untouched.\<close>

lemma SET_BOWDEN_LENGTH_without_hub:
  "HUB g = None \<Longrightarrow> cmd_SET_BOWDEN_LENGTH h g s = (Some (AttributeError ''current''), s)"
  by (simp add: cmd_SET_BOWDEN_LENGTH_def self_current_def)

text \<open>The Bowden part for a lane whose extruder has a pre-tool sensor: the error, and no
  call of the pass.\<close>

lemma bowden_calibration_with_tool_start:
  assumes "map_of (lanes s) b = Some CUR_LANE" and "extruder_obj CUR_LANE = Some e"
      and "tool_start (extruders s e) = Some pin"
  shows "bowden_calibration h dis tol b s =
           (None, AFC_error ''Cannot calibrate with only post extruder sensor and no turtleneck buffer defined in config'' s)"
  using assms by (simp add: bowden_calibration_def)

text \<open>
  The Bowden part for a lane with a post-tool sensor only and a buffer: the pass is called
  in the registry \<open>during\<close>, in which the extruder's \<open>tool_start\<close> is \<open>buffer\<close>. When
  the pass returns, the command takes the registry it left and sets \<open>tool_start\<close> back to
  \<open>None\<close>; when it raises, the command ends with the registry the pass left.
\<close>

lemma bowden_calibration_substitution:
  assumes "map_of (lanes s) b = Some CUR_LANE" and "extruder_obj CUR_LANE = Some e"
      and "tool_start (extruders s e) = None" and "tool_end (extruders s e) = Some post"
      and "buffer_obj CUR_LANE = Some buf"
      and "during = log_info ''Starting AFC distance Calibrations''
             (set_tool_start e (Some ''buffer'')
                (log_info ''Cannot run calibration using post extruder sensor, using buffer to calibrate bowden length'' s))"
      and "c = CalibrateBowden (unit_obj CUR_LANE) (lane_name CUR_LANE) dis tol"
  shows "tool_start (extruders during e) = Some ''buffer'' \<and>
         bowden_calibration h dis tol b s =
           (case calibrate_bowden h during (unit_obj CUR_LANE) CUR_LANE dis tol of
              (Inl err, s') \<Rightarrow> (Some err, after_call during c s')
            | (Inr ok, s') \<Rightarrow>
                (None, set_tool_start e None
                         (log_info ''Bowden length calibration Done!'' (after_call during c s'))))"
  using assms
  by (simp add: bowden_calibration_def Let_def set_tool_start_def log_info_def
      split: prod.splits sum.splits)

text \<open>So whenever the Bowden part returns for such a lane, \<open>tool_start\<close> is \<open>None\<close>
  again.\<close>

lemma bowden_calibration_returning_pass:
  assumes "map_of (lanes s) b = Some CUR_LANE" and "extruder_obj CUR_LANE = Some e"
      and "tool_start (extruders s e) = None" and "tool_end (extruders s e) = Some post"
      and "buffer_obj CUR_LANE = Some buf"
      and "bowden_calibration h dis tol b s = (None, s')"
  shows "tool_start (extruders s' e) = None"
  using assms
  by (auto simp: bowden_calibration_def Let_def set_tool_start_def log_info_def after_call_def
      split: prod.splits sum.splits)

subsection \<open>SET\_BOWDEN\_LENGTH: relative and absolute lengths\<close>

text \<open>
  C1, as amended. For a hub \<open>hub\<close> of the registry and a \<open>LENGTH\<close> that is not blank and
  that \<open>float\<close> reads as \<open>v\<close>: when the text starts with \<open>+\<close> or \<open>-\<close> the new working
  length is the hub's working length before the call (\<open>afc_bowden_length\<close>) plus \<open>v\<close>;
  otherwise it is \<open>v\<close>, whatever the hub held. No other hub changes and nothing is raised.
\<close>

theorem SET_BOWDEN_LENGTH_relative_absolute:
  assumes "HUB g = Some hub" and "hubs s hub = Some CUR_HUB"
      and "LENGTH g = Some lp" and "strip lp \<noteq> []" and "py_float h lp = Some v"
  shows "fst (cmd_SET_BOWDEN_LENGTH h g s) = None \<and>
         hubs (snd (cmd_SET_BOWDEN_LENGTH h g s)) =
           (hubs s)(hub \<mapsto> CUR_HUB\<lparr>afc_bowden_length :=
              (if startswith lp ''+'' \<or> startswith lp ''-''
               then afc_bowden_length CUR_HUB + v else v)\<rparr>)"
proof -
  from assms(4) obtain c cs where lp: "lp = c # cs"
    using strip_nonempty by (cases lp) auto
  show ?thesis
    using assms lp
    by (auto simp: cmd_SET_BOWDEN_LENGTH_def set_bowden_length_def new_bowden_length_def
        log_raw_def startswith_def Let_def)
qed

text \<open>The theorem at the example hub (configured 200, working 205): \<open>LENGTH=-5\<close> gives
  200 and \<open>LENGTH=150\<close> gives 150.\<close>

theorem SET_BOWDEN_LENGTH_relative_absolute_witness:
  "map_option afc_bowden_length
     (hubs (snd (cmd_SET_BOWDEN_LENGTH (table_host [] (Inr True))
                  (no_gcmd\<lparr>HUB := Some ''Turtle_1'', LENGTH := Some ''-5''\<rparr>)
                  (example_afc pre_sensor)))
        ''Turtle_1'') = Some 200 \<and>
   map_option afc_bowden_length
     (hubs (snd (cmd_SET_BOWDEN_LENGTH (table_host [] (Inr True))
                  (no_gcmd\<lparr>HUB := Some ''Turtle_1'', LENGTH := Some ''150''\<rparr>)
                  (example_afc pre_sensor)))
        ''Turtle_1'') = Some 150"
proof -
  let ?h = "table_host [] (Inr True)"
  let ?g = "no_gcmd\<lparr>HUB := Some ''Turtle_1'', LENGTH := Some ''-5''\<rparr>"
  let ?g' = "no_gcmd\<lparr>HUB := Some ''Turtle_1'', LENGTH := Some ''150''\<rparr>"
  have h2: "hubs (example_afc pre_sensor) ''Turtle_1'' = Some example_hub"
    by (simp add: example_afc_def)
  have s1: "strip ''-5'' \<noteq> []" and s2: "strip ''150'' \<noteq> []"
    by (simp_all add: strip_def py_isspace_def)
  have f1: "py_float ?h ''-5'' = Some (- 5)" and f2: "py_float ?h ''150'' = Some 150"
    by (simp_all add: table_host_def float_int_def strip_def py_isspace_def unsigned_int_def
        is_digit_def)
  have "HUB ?g = Some ''Turtle_1''" and "LENGTH ?g = Some ''-5''" by simp_all
  from SET_BOWDEN_LENGTH_relative_absolute [OF this(1) h2 this(2) s1 f1]
  have a: "map_option afc_bowden_length
             (hubs (snd (cmd_SET_BOWDEN_LENGTH ?h ?g (example_afc pre_sensor))) ''Turtle_1'')
           = Some 200"
    by (simp add: example_hub_def startswith_def)
  have "HUB ?g' = Some ''Turtle_1''" and "LENGTH ?g' = Some ''150''" by simp_all
  from SET_BOWDEN_LENGTH_relative_absolute [OF this(1) h2 this(2) s2 f2]
  have b: "map_option afc_bowden_length
             (hubs (snd (cmd_SET_BOWDEN_LENGTH ?h ?g' (example_afc pre_sensor))) ''Turtle_1'')
           = Some 150"
    by (simp add: example_hub_def startswith_def)
  from a b show ?thesis by simp
qed

text \<open>C1 as stated fails: with the configured length 200 and the working length 205,
  \<open>LENGTH=+10\<close> leaves the working length 215, which is 205 + 10 and not 200 + 10.\<close>

theorem SET_BOWDEN_LENGTH_relative_counterexample:
  "config_bowden_length example_hub = 200 \<and> afc_bowden_length example_hub = 205 \<and>
   map_option afc_bowden_length
     (hubs (snd (cmd_SET_BOWDEN_LENGTH (table_host [] (Inr True))
                  (no_gcmd\<lparr>HUB := Some ''Turtle_1'', LENGTH := Some ''+10''\<rparr>)
                  (example_afc pre_sensor)))
        ''Turtle_1'') = Some 215"
  by (simp add: cmd_SET_BOWDEN_LENGTH_def set_bowden_length_def new_bowden_length_def
      log_raw_def Let_def example_afc_def example_hub_def no_gcmd_def table_host_def
      float_int_def strip_def py_isspace_def unsigned_int_def is_digit_def)

subsection \<open>SET\_BOWDEN\_LENGTH: a blank length\<close>

text \<open>
  C10. For a hub \<open>hub\<close> of the registry, a call whose \<open>LENGTH\<close> is not given, or is empty
  once stripped of whitespace, raises nothing and sets the hub's working length to its
  configured length \<open>config_bowden_length\<close>; every other hub is as before.
\<close>

theorem SET_BOWDEN_LENGTH_blank_resets:
  assumes "HUB g = Some hub" and "hubs s hub = Some CUR_HUB"
      and "LENGTH g = None \<or> (\<exists>lp. LENGTH g = Some lp \<and> strip lp = [])"
  shows "fst (cmd_SET_BOWDEN_LENGTH h g s) = None \<and>
         hubs (snd (cmd_SET_BOWDEN_LENGTH h g s)) =
           (hubs s)(hub \<mapsto> CUR_HUB\<lparr>afc_bowden_length := config_bowden_length CUR_HUB\<rparr>)"
  using assms
  by (auto simp: cmd_SET_BOWDEN_LENGTH_def set_bowden_length_def new_bowden_length_def
      log_raw_def Let_def)

text \<open>The theorem at the example hub with \<open>LENGTH\<close> two spaces: the working length goes
  from 205 back to 200.\<close>

theorem SET_BOWDEN_LENGTH_blank_resets_witness:
  "fst (cmd_SET_BOWDEN_LENGTH (table_host [] (Inr True))
          (no_gcmd\<lparr>HUB := Some ''Turtle_1'', LENGTH := Some ''  ''\<rparr>)
          (example_afc pre_sensor)) = None \<and>
   map_option afc_bowden_length
     (hubs (snd (cmd_SET_BOWDEN_LENGTH (table_host [] (Inr True))
                  (no_gcmd\<lparr>HUB := Some ''Turtle_1'', LENGTH := Some ''  ''\<rparr>)
                  (example_afc pre_sensor)))
        ''Turtle_1'') = Some 200"
proof -
  let ?g = "no_gcmd\<lparr>HUB := Some ''Turtle_1'', LENGTH := Some ''  ''\<rparr>"
  have h1: "HUB ?g = Some ''Turtle_1''" by simp
  have h2: "hubs (example_afc pre_sensor) ''Turtle_1'' = Some example_hub"
    by (simp add: example_afc_def)
  have h3: "LENGTH ?g = None \<or> (\<exists>lp. LENGTH ?g = Some lp \<and> strip lp = [])"
    by (simp add: strip_def py_isspace_def)
  from SET_BOWDEN_LENGTH_blank_resets [OF h1 h2 h3, of "table_host [] (Inr True)"]
  show ?thesis by (simp add: example_hub_def)
qed

subsection \<open>SET\_BOWDEN\_LENGTH without a hub\<close>

text \<open>
  C9. With no \<open>HUB\<close> and no lane loaded the command does not reach the message of line
  501: the condition of line 500 reads \<open>self.current\<close>, and the command ends with the
  AttributeError. The registry, its hubs and its log included, is as before the call.
\<close>

theorem SET_BOWDEN_LENGTH_no_hub_raises:
  "cmd_SET_BOWDEN_LENGTH (table_host [] (Inr True)) (no_gcmd\<lparr>LENGTH := Some ''100''\<rparr>)
     (example_afc pre_sensor) = (Some (AttributeError ''current''), example_afc pre_sensor)"
  by (simp add: cmd_SET_BOWDEN_LENGTH_def self_current_def no_gcmd_def example_afc_def)

subsection \<open>ConfigRewrite: the column of the comment\<close>

text \<open>
  C4, as amended. Let the first \<open>#\<close> of the key line stand at column \<open>c\<close>, not as the
  line's last character, and let \<open>n\<close> be the length of the new \<open>key: value\<close> text. In the
  rewritten line the comment starts at column \<open>max c (n + 1)\<close>: before it stand the new
  text and spaces only, from it on the old comment and a newline. So the \<open>#\<close> keeps its
  column \<open>c\<close> when \<open>n < c\<close>, and moves right to column \<open>n + 1\<close> when the new text is longer.
\<close>

theorem rewrite_line_comment_column:
  assumes "index_of CHR ''#'' line = Some c" and "Suc c < length line"
  shows "take (max c (Suc (length (rawkey @ '': '' @ rawvalue))))
              (rewrite_line rawkey rawvalue line)
           = (rawkey @ '': '' @ rawvalue) @
             replicate (max c (Suc (length (rawkey @ '': '' @ rawvalue))) -
                        length (rawkey @ '': '' @ rawvalue)) CHR '' '' \<and>
         drop (max c (Suc (length (rawkey @ '': '' @ rawvalue))))
              (rewrite_line rawkey rawvalue line)
           = butlast (drop c line) @ [newline] \<and>
         rewrite_line rawkey rawvalue line ! (max c (Suc (length (rawkey @ '': '' @ rawvalue))))
           = CHR ''#''"
proof -
  let ?l = "rawkey @ '': '' @ rawvalue"
  let ?k = "max c (Suc (length ?l))"
  let ?pad = "?l @ replicate (?k - length ?l) CHR '' ''"
  let ?tail = "butlast (drop c line) @ [newline]"
  have r: "rewrite_line rawkey rawvalue line = ?pad @ ?tail"
    using rewrite_line_shape [OF assms(1)] by simp
  have len: "length ?pad = ?k"
    using pad_length [of "length ?l" c] by simp
  have "butlast (drop c line) \<noteq> []"
    using assms(2)
    by (cases "drop c line") (auto dest!: arg_cong[where f=length] split: if_splits)
  moreover have "drop c line ! 0 = CHR ''#''"
    using index_of_Some [OF assms(1)] by simp
  ultimately have hd: "?tail ! 0 = CHR ''#''"
    by (cases "drop c line") (auto simp: nth_append nth_butlast split: if_splits)
  have "(?pad @ ?tail) ! ?k = ?tail ! 0"
    using len by (metis add.right_neutral nth_append_length_plus)
  with r len hd show ?thesis
    by (metis append_eq_conv_conj)
qed

text \<open>The theorem at two lines: a shorter value keeps the \<open>#\<close> at column 11, and on
  \<open>key: 1 # note\<close> the value 123456 puts it at column 12.\<close>

theorem rewrite_line_comment_column_witness:
  "rewrite_line ''key'' ''2'' (''key: 100   # note'' @ [newline]) ! 11 = CHR ''#'' \<and>
   rewrite_line ''key'' ''123456'' noted_line ! 12 = CHR ''#''"
proof -
  have i1: "index_of CHR ''#'' (''key: 100   # note'' @ [newline]) = Some 11"
    by (simp add: newline_def)
  have l1: "Suc 11 < length (''key: 100   # note'' @ [newline])"
    by simp
  have k1: "max 11 (Suc (length (''key'' @ '': '' @ ''2''))) = (11::nat)"
    by simp
  have i2: "index_of CHR ''#'' noted_line = Some 7"
    by (simp add: noted_line_def newline_def)
  have l2: "Suc 7 < length noted_line"
    by (simp add: noted_line_def)
  have k2: "max 7 (Suc (length (''key'' @ '': '' @ ''123456''))) = (12::nat)"
    by simp
  note a = rewrite_line_comment_column
    [OF i1 l1, of "''key''" "''2''", THEN conjunct2, THEN conjunct2]
  note b = rewrite_line_comment_column
    [OF i2 l2, of "''key''" "''123456''", THEN conjunct2, THEN conjunct2]
  from a b show ?thesis
    unfolding k1 k2 by (rule conjI)
qed

text \<open>C4 as stated fails: in \<open>key: 1 # note\<close> the \<open>#\<close> stands at column 7, and after
  the rewrite with the longer value 123456 it stands at column 12.\<close>

theorem rewrite_line_longer_value_counterexample:
  "index_of CHR ''#'' noted_line = Some 7 \<and>
   rewrite_line ''key'' ''123456'' noted_line = ''key: 123456 # note'' @ [newline] \<and>
   index_of CHR ''#'' (rewrite_line ''key'' ''123456'' noted_line) = Some 12"
  by (simp add: noted_line_def rewrite_line_def ljust_def newline_def)

subsection \<open>CALIBRATE\_AFC: a batch stops at the first failed pass\<close>

text \<open>
  C3, as amended. Take \<open>LANE=all\<close>, over the lanes of the registry or, with \<open>UNIT\<close>,
  over the lanes of that unit: the loop runs the lanes \<open>ls\<close> from the registry \<open>s0\<close>.
  When the passes of the first lanes \<open>pre\<close>, run one after the other, are all checked,
  with the messages \<open>ms\<close>, and the pass of the next lane \<open>bad\<close> fails (it returns
  unchecked, or it raises), the command ends with the registry \<open>s2\<close> that this pass left:
  it runs no pass of a later lane and logs nothing more, and it ends with the exception of
  the pass if there was one and with none otherwise. The trace holds the passes of \<open>pre\<close>
  and of \<open>bad\<close>, in order. The command returns no value and reports no aggregate: the
  header and the messages \<open>ms\<close> are what the local \<open>cal_msg\<close> holds when the failed
  pass is called, and no statement reads it.
\<close>

theorem CALIBRATE_AFC_all_fail_fast:
  assumes "LANE g = Some ''all''"
      and "BOWDEN g = None \<or> current s = None"
      and "\<not> unknown_key (BOWDEN g) (lanes s)"
      and "tol = (case TOLERANCE g of None \<Rightarrow> 5 | Some t \<Rightarrow> t)"
      and "(UNIT g = None \<and> unit_of = unit_obj \<and> ls = map snd (lanes s) \<and>
            s0 = log_info ''Starting AFC distance Calibrations'' s) \<or>
           (\<exists>u CUR_UNIT. UNIT g = Some u \<and> map_of (units s) u = Some CUR_UNIT \<and>
              unit_of = (\<lambda>l. u) \<and> ls = map snd (unit_lanes CUR_UNIT) \<and>
              s0 = log_info (unit_name CUR_UNIT)
                     (log_info ''Starting AFC distance Calibrations'' s))"
      and "ls = pre @ bad # rest"
      and "run_passes h unit_of tol pre s0 = (map (\<lambda>m. Inr (True, m)) ms, s1)"
      and "lane_pass h (unit_of bad) tol bad s1 = (r, s2)"
      and "(\<exists>mb. r = Inr (False, mb)) \<or> (\<exists>err. r = Inl err)"
  shows "cmd_CALIBRATE_AFC h g s = ((case r of Inl err \<Rightarrow> Some err | Inr x \<Rightarrow> None), s2) \<and>
         hw_calls s2 =
           hw_calls s @ map (\<lambda>l. CalibrateLane (unit_of l) (lane_name l) tol) (pre @ [bad]) \<and>
         calibrate_lanes h unit_of tol pre (calibration_header h tol) s0 =
           Continue (calibration_header h tol @ concat ms) s1"
proof -
  let ?end = "case r of Inl err \<Rightarrow> Raise err s2 | Inr x \<Rightarrow> Return s2"
  have loop: "calibrate_lanes h unit_of tol ls (calibration_header h tol) s0 = ?end"
    unfolding assms(6)
    using calibrate_lanes_checked_prefix [OF assms(7)]
      calibrate_lanes_failed_pass [of h unit_of bad tol s1 r s2, OF assms(8,9)]
    by simp
  have pre: "calibrate_lanes h unit_of tol pre (calibration_header h tol) s0 =
      Continue (calibration_header h tol @ concat ms) s1"
    using calibrate_lanes_checked_prefix [OF assms(7), of "[]"] by simp
  have t0: "hw_calls s0 = hw_calls s"
    using assms(5) by (auto simp: log_info_def)
  have trace: "hw_calls s2 =
      hw_calls s @ map (\<lambda>l. CalibrateLane (unit_of l) (lane_name l) tol) (pre @ [bad])"
    using run_passes_trace [OF assms(7)] lane_pass_trace [OF assms(8)] t0 by simp
  have stop: "after_passes ?end = ?end"
    using assms(9) by (auto simp: after_passes_def)
  have "distance_calibration h tol (LANE g) (UNIT g) [] s = ?end"
    using assms(5)
  proof
    assume "UNIT g = None \<and> unit_of = unit_obj \<and> ls = map snd (lanes s) \<and>
            s0 = log_info ''Starting AFC distance Calibrations'' s"
    with loop stop assms(1) show ?thesis
      by (simp add: distance_calibration_def Let_def log_info_def)
  next
    assume "\<exists>u CUR_UNIT. UNIT g = Some u \<and> map_of (units s) u = Some CUR_UNIT \<and>
              unit_of = (\<lambda>l. u) \<and> ls = map snd (unit_lanes CUR_UNIT) \<and>
              s0 = log_info (unit_name CUR_UNIT)
                     (log_info ''Starting AFC distance Calibrations'' s)"
    with loop stop assms(1) show ?thesis
      by (auto simp: distance_calibration_def Let_def log_info_def)
  qed
  moreover have "\<not> unknown_key (UNIT g) (units s)"
    using assms(5) by (auto simp: unknown_key_def)
  ultimately have "cmd_CALIBRATE_AFC h g s =
      ((case r of Inl err \<Rightarrow> Some err | Inr x \<Rightarrow> None), s2)"
    using assms(1,2,3,4,9) by (auto simp: cmd_CALIBRATE_AFC_def Let_def)
  with trace pre show ?thesis by simp
qed

text \<open>The theorem at the example machine with \<open>TOLERANCE=5\<close>, once over all lanes and
  once with \<open>UNIT=Turtle_1\<close>: lanes 1 and 2 pass, lane 3 fails, lane 4 is not tried.\<close>

theorem CALIBRATE_AFC_all_fail_fast_witness:
  "cmd_CALIBRATE_AFC (table_host two_then_fail (Inr True))
     (no_gcmd\<lparr>LANE := Some ''all'', TOLERANCE := Some 5\<rparr>) (example_afc post_sensor) =
   (None, (example_afc post_sensor)
      \<lparr>logged := [Info ''Starting AFC distance Calibrations''],
       hw_calls := [CalibrateLane ''Turtle_1'' ''lane1'' 5, CalibrateLane ''Turtle_1'' ''lane2'' 5,
                    CalibrateLane ''Turtle_1'' ''lane3'' 5]\<rparr>) \<and>
   cmd_CALIBRATE_AFC (table_host two_then_fail (Inr True))
     (no_gcmd\<lparr>LANE := Some ''all'', UNIT := Some ''Turtle_1'', TOLERANCE := Some 5\<rparr>)
     (example_afc post_sensor) =
   (None, (example_afc post_sensor)
      \<lparr>logged := [Info ''Starting AFC distance Calibrations'', Info ''Turtle_1''],
       hw_calls := [CalibrateLane ''Turtle_1'' ''lane1'' 5, CalibrateLane ''Turtle_1'' ''lane2'' 5,
                    CalibrateLane ''Turtle_1'' ''lane3'' 5]\<rparr>)"
proof -
  let ?h = "table_host two_then_fail (Inr True)"
  let ?g = "no_gcmd\<lparr>LANE := Some ''all'', TOLERANCE := Some 5\<rparr>"
  let ?gu = "no_gcmd\<lparr>LANE := Some ''all'', UNIT := Some ''Turtle_1'', TOLERANCE := Some 5\<rparr>"
  let ?s = "example_afc post_sensor"
  let ?pre = "[example_lane ''lane1'', example_lane ''lane2'']"
  let ?bad = "example_lane ''lane3''"
  let ?rest = "[example_lane ''lane4'']"
  let ?ms = "[''lane1 ok'', ''lane2 ok'']"
  let ?start = "log_info ''Starting AFC distance Calibrations'' ?s"
  let ?ustart = "log_info ''Turtle_1'' ?start"
  let ?two = "[CalibrateLane ''Turtle_1'' ''lane1'' (5::int), CalibrateLane ''Turtle_1'' ''lane2'' 5]"
  let ?three = "?two @ [CalibrateLane ''Turtle_1'' ''lane3'' (5::int)]"
  have 1: "LANE ?g = Some ''all''" "LANE ?gu = Some ''all''"
    and 2: "BOWDEN ?g = None \<or> current ?s = None" "BOWDEN ?gu = None \<or> current ?s = None"
    and 3: "\<not> unknown_key (BOWDEN ?g) (lanes ?s)" "\<not> unknown_key (BOWDEN ?gu) (lanes ?s)"
    and 4: "(5::int) = (case TOLERANCE ?g of None \<Rightarrow> 5 | Some t \<Rightarrow> t)"
           "(5::int) = (case TOLERANCE ?gu of None \<Rightarrow> 5 | Some t \<Rightarrow> t)"
    by (simp_all add: no_gcmd_def unknown_key_def)
  have 5: "(UNIT ?g = None \<and> unit_obj = unit_obj \<and> ?pre @ ?bad # ?rest = map snd (lanes ?s) \<and>
            ?start = log_info ''Starting AFC distance Calibrations'' ?s) \<or>
           (\<exists>u CUR_UNIT. UNIT ?g = Some u \<and> map_of (units ?s) u = Some CUR_UNIT \<and>
              unit_obj = (\<lambda>l. u) \<and> ?pre @ ?bad # ?rest = map snd (unit_lanes CUR_UNIT) \<and>
              ?start = log_info (unit_name CUR_UNIT)
                     (log_info ''Starting AFC distance Calibrations'' ?s))"
    by (simp add: no_gcmd_def example_afc_def example_lanes_def log_info_def)
  have u5: "(UNIT ?gu = None \<and> (\<lambda>l. ''Turtle_1'') = unit_obj \<and> ?pre @ ?bad # ?rest = map snd (lanes ?s) \<and>
            ?ustart = log_info ''Starting AFC distance Calibrations'' ?s) \<or>
           (\<exists>u CUR_UNIT. UNIT ?gu = Some u \<and> map_of (units ?s) u = Some CUR_UNIT \<and>
              (\<lambda>l. ''Turtle_1'') = (\<lambda>l. u) \<and> ?pre @ ?bad # ?rest = map snd (unit_lanes CUR_UNIT) \<and>
              ?ustart = log_info (unit_name CUR_UNIT)
                     (log_info ''Starting AFC distance Calibrations'' ?s))"
    by (simp add: no_gcmd_def example_afc_def example_lanes_def log_info_def)
  have 6: "?pre @ ?bad # ?rest = ?pre @ ?bad # ?rest" by (rule refl)
  have 7: "run_passes ?h unit_obj 5 ?pre ?start =
             (map (\<lambda>m. Inr (True, m)) ?ms, ?start\<lparr>hw_calls := ?two\<rparr>)"
    by (simp add: lane_pass_def after_call_def table_host_def two_then_fail_def example_lane_def
        log_info_def example_afc_def)
  have u7: "run_passes ?h (\<lambda>l. ''Turtle_1'') 5 ?pre ?ustart =
             (map (\<lambda>m. Inr (True, m)) ?ms, ?ustart\<lparr>hw_calls := ?two\<rparr>)"
    by (simp add: lane_pass_def after_call_def table_host_def two_then_fail_def example_lane_def
        log_info_def example_afc_def)
  have 8: "lane_pass ?h (unit_obj ?bad) 5 ?bad (?start\<lparr>hw_calls := ?two\<rparr>) =
             (Inr (False, ''lane3 failed''), ?start\<lparr>hw_calls := ?three\<rparr>)"
    by (simp add: lane_pass_def after_call_def table_host_def two_then_fail_def example_lane_def
        log_info_def example_afc_def)
  have u8: "lane_pass ?h ''Turtle_1'' 5 ?bad (?ustart\<lparr>hw_calls := ?two\<rparr>) =
             (Inr (False, ''lane3 failed''), ?ustart\<lparr>hw_calls := ?three\<rparr>)"
    by (simp add: lane_pass_def after_call_def table_host_def two_then_fail_def example_lane_def
        log_info_def example_afc_def)
  have 9: "(\<exists>mb. Inr (False, ''lane3 failed'') = Inr (False, mb)) \<or>
           (\<exists>err. (Inr (False, ''lane3 failed'') :: py_error + bool \<times> string) = Inl err)"
    by simp
  note a = CALIBRATE_AFC_all_fail_fast [OF 1(1) 2(1) 3(1) 4(1) 5 6 7 8 9, THEN conjunct1]
  note b = CALIBRATE_AFC_all_fail_fast
    [where unit_of = "\<lambda>l. ''Turtle_1''", OF 1(2) 2(2) 3(2) 4(2) u5 6 u7 u8 9, THEN conjunct1]
  from a b show ?thesis
    by (simp add: log_info_def example_afc_def)
qed

text \<open>C3 as stated fails: after two checked passes and a failed third, what the command
  leaves in the log is its start line; it returns no value, and neither message of the two
  checked passes is logged.\<close>

theorem CALIBRATE_AFC_all_counterexample:
  "fst (calibrate_lane (table_host two_then_fail (Inr True)) (example_afc post_sensor)
          ''Turtle_1'' (example_lane ''lane1'') 5) = Inr (True, ''lane1 ok'') \<and>
   fst (calibrate_lane (table_host two_then_fail (Inr True)) (example_afc post_sensor)
          ''Turtle_1'' (example_lane ''lane2'') 5) = Inr (True, ''lane2 ok'') \<and>
   fst (cmd_CALIBRATE_AFC (table_host two_then_fail (Inr True)) (no_gcmd\<lparr>LANE := Some ''all''\<rparr>)
          (example_afc post_sensor)) = None \<and>
   logged (snd (cmd_CALIBRATE_AFC (table_host two_then_fail (Inr True))
                  (no_gcmd\<lparr>LANE := Some ''all''\<rparr>) (example_afc post_sensor)))
     = [Info ''Starting AFC distance Calibrations'']"
  by (simp add: cmd_CALIBRATE_AFC_def distance_calibration_def after_passes_def calibrate_pass_def
      lane_pass_def after_call_def
      unknown_key_def log_info_def no_gcmd_def example_afc_def example_lanes_def
      example_lane_def two_then_fail_def table_host_def Let_def)

subsection \<open>CALIBRATE\_AFC: the sensors a Bowden calibration needs\<close>

text \<open>
  C2. A lane whose extruder has a pre-tool sensor (\<open>tool_start\<close> set) and a buffer is
  refused: the \<open>else\<close> of line 459 belongs to the test for the buffer substitution, so
  every lane that does not take the substitution gets the error of line 461, and the pass is
  not run.
\<close>

theorem CALIBRATE_AFC_pre_sensor_rejected:
  "cmd_CALIBRATE_AFC (table_host [] (Inr True)) (no_gcmd\<lparr>BOWDEN := Some ''lane1''\<rparr>)
     (example_afc pre_sensor) =
   (None, (example_afc pre_sensor)
      \<lparr>logged := [Info ''No lanes selected to calibrate dist_hub'',
                  Error ''Cannot calibrate with only post extruder sensor and no turtleneck buffer defined in config'']\<rparr>) \<and>
   hw_calls (snd (cmd_CALIBRATE_AFC (table_host [] (Inr True))
                    (no_gcmd\<lparr>BOWDEN := Some ''lane1''\<rparr>) (example_afc pre_sensor))) = []"
  by (simp add: cmd_CALIBRATE_AFC_def distance_calibration_def bowden_calibration_def
      unknown_key_def log_info_def AFC_error_def no_gcmd_def example_afc_def example_lanes_def
      example_lane_def pre_sensor_def Let_def)

subsection \<open>CALIBRATE\_AFC: the buffer as start sensor\<close>

text \<open>
  C8. The lane has a post-tool sensor only and a buffer, so the buffer is substituted as
  start sensor, and the pass raises. The exception leaves the command at line 467: lines 470
  and 471, which set \<open>tool_start\<close> back, are not run, and the extruder that had no
  \<open>tool_start\<close> before the call has \<open>buffer\<close> after it.
\<close>

theorem CALIBRATE_AFC_raising_pass_keeps_buffer:
  "tool_start (extruders (example_afc post_sensor) ''extruder'') = None \<and>
   fst (cmd_CALIBRATE_AFC (table_host [] (Inl (PassError ''stop''))) (no_gcmd\<lparr>BOWDEN := Some ''lane1''\<rparr>)
          (example_afc post_sensor)) = Some (PassError ''stop'') \<and>
   tool_start (extruders (snd (cmd_CALIBRATE_AFC (table_host [] (Inl (PassError ''stop'')))
       (no_gcmd\<lparr>BOWDEN := Some ''lane1''\<rparr>) (example_afc post_sensor))) ''extruder'')
     = Some ''buffer''"
  by (simp add: cmd_CALIBRATE_AFC_def distance_calibration_def bowden_calibration_def
      unknown_key_def log_info_def set_tool_start_def after_call_def no_gcmd_def example_afc_def
      example_lanes_def example_lane_def post_sensor_def table_host_def Let_def)

subsection \<open>ConfigRewrite: the section flag across files\<close>

text \<open>
  C5. \<open>sectionfound\<close> is set once, before the loop over the files (line 61), and no
  statement resets it at the start of a file. After \<open>a.cfg\<close>, which ends inside the section
  \<open>sec\<close>, the key line of \<open>b.cfg\<close> is rewritten although no line of \<open>b.cfg\<close> is a section
  header.
\<close>

theorem ConfigRewrite_section_carried_over:
  "ConfigRewrite open_section_dir ''sec'' ''key'' ''2'' [] =
     ([(''a.cfg'', File (''[sec]'' @ [newline])), (''b.cfg'', File (''key: 2 '' @ [newline]))],
      Info (saved_msg ''key'' ''2'' ''sec''))"
  by (simp add: ConfigRewrite_def open_section_dir_def scan_file_def scan_line_def
      section_match_def startswith_def endswith_def rewrite_line_def ljust_def newline_def Let_def)

text \<open>
  C6. In \<open>split_dir\<close> no file holds the section \<open>sec\<close> together with the key: \<open>hub.cfg\<close>
  has the section without the key, and \<open>macros.cfg\<close> has the key and no section. The call
  logs that it saved the key, and \<open>macros.cfg\<close> is written with the new value.
\<close>

theorem ConfigRewrite_split_dir_written:
  "ConfigRewrite split_dir ''sec'' ''key'' ''2'' [] =
     ([(''hub.cfg'', File (''[sec]'' @ [newline] @ ''other: 3'' @ [newline])),
       (''notes.txt'', File (''key: 0'' @ [newline])),
       (''macros.cfg'', File (''# macros'' @ [newline] @ ''key: 2 '' @ [newline]))],
      Info (saved_msg ''key'' ''2'' ''sec'')) \<and>
   fst (ConfigRewrite split_dir ''sec'' ''key'' ''2'' []) \<noteq> split_dir"
  by (simp add: ConfigRewrite_def split_dir_def scan_file_def scan_line_def
      section_match_def startswith_def endswith_def rewrite_line_def ljust_def newline_def Let_def)

text \<open>
  C7. In \<open>four_file_dir\<close> the files \<open>c.cfg\<close> and \<open>d.cfg\<close> hold the section with the key,
  and \<open>c.cfg\<close> is the first of them. The file that is written is \<open>b.cfg\<close>, which has no
  section, and \<open>c.cfg\<close> is left as it was. (The scan does stop after the one file it writes:
  \<open>d.cfg\<close> is untouched.)
\<close>

theorem ConfigRewrite_first_match_not_written:
  "fst (ConfigRewrite four_file_dir ''sec'' ''key'' ''2'' []) =
     [(''a.cfg'', File (''[sec]'' @ [newline])),
      (''b.cfg'', File (''key: 2 '' @ [newline])),
      (''c.cfg'', File (''[sec]'' @ [newline] @ ''key: 1'' @ [newline])),
      (''d.cfg'', File (''[sec]'' @ [newline] @ ''key: 1'' @ [newline]))]"
  by (simp add: ConfigRewrite_def four_file_dir_def scan_file_def scan_line_def
      section_match_def startswith_def endswith_def rewrite_line_def ljust_def newline_def Let_def)

end
